theory Spec2Isabelle
  imports Main "HOL-Library.Sublist"
begin

section \<open>The user console: roster screen (Users.tsx) and profile screen\<close>

subsection \<open>Data model\<close>

text \<open>
  The interface \<^verbatim>\<open>UserData\<close> of \<^verbatim>\<open>src/pages/Users.tsx\<close>. The records are built by
  spreading \<^verbatim>\<open>doc.data()\<close> and casting the result, so a field the document lacks is
  \<^verbatim>\<open>undefined\<close> at run time; the filter guards \<^verbatim>\<open>email\<close> and \<^verbatim>\<open>displayName\<close> with
  optional chaining for that reason. These two fields are therefore optional strings,
  \<open>None\<close> standing for \<^verbatim>\<open>undefined\<close>. \<^verbatim>\<open>createdAt\<close> is an opaque timestamp.
\<close>

record UserData =
  uid :: string
  email :: "string option"
  displayName :: "string option"
  emailVerified :: bool
  createdAt :: nat

subsection \<open>The fragment of JavaScript the filter expression uses\<close>

text \<open>
  The values the filter expression computes with, and the one exception it could raise:
  a method call on \<^verbatim>\<open>undefined\<close> (or of a method the receiver does not have) is a
  \<^verbatim>\<open>TypeError\<close>.
\<close>

datatype jsval = Undefined | Str string | Boolean bool

datatype error = TypeError

text \<open>\<^verbatim>\<open>ToBoolean\<close>: what \<^verbatim>\<open>||\<close> and \<^verbatim>\<open>Array.prototype.filter\<close> test.\<close>

fun truthy :: "jsval \<Rightarrow> bool" where
  "truthy Undefined = False"
| "truthy (Str s) = (s \<noteq> [])"
| "truthy (Boolean b) = b"

text \<open>\<^verbatim>\<open>ToString\<close>, applied by \<^verbatim>\<open>includes\<close> to its argument.\<close>

fun toString :: "jsval \<Rightarrow> string" where
  "toString Undefined = ''undefined''"
| "toString (Str s) = s"
| "toString (Boolean b) = (if b then ''true'' else ''false'')"

text \<open>
  \<^verbatim>\<open>s.includes(t)\<close> on strings: \<open>t\<close> occurs in \<open>s\<close> as a contiguous run, searched from
  the left.
\<close>

fun str_includes :: "string \<Rightarrow> string \<Rightarrow> bool" where
  "str_includes [] t = (t = [])"
| "str_includes (c # s) t = (prefix t (c # s) \<or> str_includes s t)"

text \<open>
  \<^verbatim>\<open>v.toLowerCase()\<close> and \<^verbatim>\<open>v.includes(w)\<close> as method calls on a value. The lowercasing
  of strings itself belongs to the language runtime, not to this repository: it is the
  parameter \<open>lc\<close> throughout.
\<close>

fun call_toLowerCase :: "(string \<Rightarrow> string) \<Rightarrow> jsval \<Rightarrow> error + jsval" where
  "call_toLowerCase lc (Str s) = Inr (Str (lc s))"
| "call_toLowerCase lc Undefined = Inl TypeError"
| "call_toLowerCase lc (Boolean b) = Inl TypeError"

fun call_includes :: "jsval \<Rightarrow> jsval \<Rightarrow> error + jsval" where
  "call_includes (Str s) w = Inr (Boolean (str_includes s (toString w)))"
| "call_includes Undefined w = Inl TypeError"
| "call_includes (Boolean b) w = Inl TypeError"

text \<open>
  An optional chain \<^verbatim>\<open>v?.rest\<close>: when \<open>v\<close> is \<^verbatim>\<open>undefined\<close> the whole chain is
  \<^verbatim>\<open>undefined\<close> and \<open>rest\<close> is not evaluated.
\<close>

fun optional_chain :: "jsval \<Rightarrow> (jsval \<Rightarrow> error + jsval) \<Rightarrow> error + jsval" where
  "optional_chain Undefined rest = Inr Undefined"
| "optional_chain v rest = rest v"

text \<open>Reading a field of a user record.\<close>

fun read_field :: "string option \<Rightarrow> jsval" where
  "read_field None = Undefined"
| "read_field (Some s) = Str s"

text \<open>Sequencing of evaluations that may raise.\<close>

fun bind :: "error + 'a \<Rightarrow> ('a \<Rightarrow> error + 'b) \<Rightarrow> error + 'b" where
  "bind (Inl e) f = Inl e"
| "bind (Inr x) f = f x"

subsection \<open>The roster filter\<close>

text \<open>
  One disjunct of the filter callback,
  \<^verbatim>\<open>user.email?.toLowerCase().includes(searchQuery.toLowerCase())\<close>: the receiver chain
  first, then the argument, then the call.
\<close>

definition field_matches :: "(string \<Rightarrow> string) \<Rightarrow> string option \<Rightarrow> string \<Rightarrow> error + jsval" where
  "field_matches lc f searchQuery =
     optional_chain (read_field f) (\<lambda>v.
       bind (call_toLowerCase lc v) (\<lambda>lowered.
       bind (call_toLowerCase lc (Str searchQuery)) (\<lambda>term.
       call_includes lowered term)))"

text \<open>
  The callback of \<^verbatim>\<open>users.filter\<close> (Users.tsx, lines 65 to 68): \<^verbatim>\<open>a || b\<close> is \<open>a\<close> when
  \<open>a\<close> is truthy and \<open>b\<close> otherwise.
\<close>

definition user_matches :: "(string \<Rightarrow> string) \<Rightarrow> string \<Rightarrow> UserData \<Rightarrow> error + jsval" where
  "user_matches lc searchQuery user =
     bind (field_matches lc (email user) searchQuery) (\<lambda>a.
       if truthy a then Inr a else field_matches lc (displayName user) searchQuery)"

text \<open>
  \<^verbatim>\<open>Array.prototype.filter\<close>: a new array of the elements whose callback value is
  truthy, in order; an exception of the callback ends the whole call.
\<close>

fun array_filter :: "('a \<Rightarrow> error + jsval) \<Rightarrow> 'a list \<Rightarrow> error + 'a list" where
  "array_filter cb [] = Inr []"
| "array_filter cb (x # xs) =
     bind (cb x) (\<lambda>v.
     bind (array_filter cb xs) (\<lambda>rest.
       Inr (if truthy v then x # rest else rest)))"

definition filteredUsers :: "(string \<Rightarrow> string) \<Rightarrow> UserData list \<Rightarrow> string \<Rightarrow> error + UserData list" where
  "filteredUsers lc users searchQuery = array_filter (user_matches lc searchQuery) users"

text \<open>
  A lowercasing used to run the definitions on concrete inputs: letters \<open>A\<close> to \<open>Z\<close>
  go to \<open>a\<close> to \<open>z\<close>, every other character stays. On ASCII text this is what
  \<^verbatim>\<open>String.prototype.toLowerCase\<close> computes.
\<close>

definition ascii_lower_char :: "char \<Rightarrow> char" where
  "ascii_lower_char c =
     (if 65 \<le> (of_char c :: nat) \<and> (of_char c :: nat) \<le> 90 then char_of (of_char c + (32 :: nat)) else c)"

definition ascii_toLowerCase :: "string \<Rightarrow> string" where
  "ascii_toLowerCase s = map ascii_lower_char s"

subsection \<open>Effects of the event handlers\<close>

text \<open>
  The handlers act on the outside world in two ways: calls to the account service of
  \<^verbatim>\<open>lib/firebase/auth\<close> and notifications. The notification texts are Russian string
  literals in the source; each is named here by what it says.
\<close>

datatype backend_call =
    DeleteUser string
  | UpdateUserProfile string
  | UpdateUserPassword string string

datatype message =
    UserDeleted
  | UserDeleteFailed
  | ProfileUpdated
  | ProfileUpdateFailed
  | PasswordsDiffer
  | PasswordChanged
  | PasswordChangeFailed

datatype effect =
    BackendCall backend_call
  | ShowSuccessNotification message
  | ShowErrorNotification message

text \<open>
  An awaited call of the account service either fulfils or rejects; a rejection is the
  exception the handler's \<^verbatim>\<open>catch\<close> receives. The service is the parameter \<open>backend\<close>
  of the handlers that call it.
\<close>

datatype outcome = Fulfilled | Rejected

fun is_backend_call :: "effect \<Rightarrow> bool" where
  "is_backend_call (BackendCall c) = True"
| "is_backend_call (ShowSuccessNotification m) = False"
| "is_backend_call (ShowErrorNotification m) = False"

fun is_success_notification :: "effect \<Rightarrow> bool" where
  "is_success_notification (ShowSuccessNotification m) = True"
| "is_success_notification (BackendCall c) = False"
| "is_success_notification (ShowErrorNotification m) = False"

fun is_failure_notification :: "effect \<Rightarrow> bool" where
  "is_failure_notification (ShowErrorNotification m) = True"
| "is_failure_notification (BackendCall c) = False"
| "is_failure_notification (ShowSuccessNotification m) = False"

definition backend_calls :: "effect list \<Rightarrow> effect list" where
  "backend_calls effs = filter is_backend_call effs"

definition success_notifications :: "effect list \<Rightarrow> effect list" where
  "success_notifications effs = filter is_success_notification effs"

definition failure_notifications :: "effect list \<Rightarrow> effect list" where
  "failure_notifications effs = filter is_failure_notification effs"

subsection \<open>The roster screen: component \<^verbatim>\<open>Users\<close>\<close>

text \<open>The five \<^verbatim>\<open>useState\<close> cells of the component and their initial values.\<close>

record users_state =
  users :: "UserData list"
  loading :: bool
  showPasswordPrompt :: bool
  selectedUser :: "UserData option"
  searchQuery :: string

definition initial_users_state :: users_state where
  "initial_users_state =
     \<lparr>users = [], loading = True, showPasswordPrompt = False, selectedUser = None,
      searchQuery = []\<rparr>"

text \<open>
  A document of a snapshot: its id and its data. The roster entry is
  \<^verbatim>\<open>{uid: doc.id, ...doc.data()}\<close>, so a \<^verbatim>\<open>uid\<close> stored in the data overrides the id, and
  \<^verbatim>\<open>email\<close> and \<^verbatim>\<open>displayName\<close> are there only when the data has them.
\<close>

record doc_data =
  data_uid :: "string option"
  data_email :: "string option"
  data_displayName :: "string option"
  data_emailVerified :: bool
  data_createdAt :: nat

definition usersData :: "(string \<times> doc_data) list \<Rightarrow> UserData list" where
  "usersData docs =
     map (\<lambda>(doc_id, d).
            \<lparr>uid = (case data_uid d of None \<Rightarrow> doc_id | Some u \<Rightarrow> u),
             email = data_email d,
             displayName = data_displayName d,
             emailVerified = data_emailVerified d,
             createdAt = data_createdAt d\<rparr>) docs"

text \<open>
  The effect of lines 26 to 40 subscribes once, when the component mounts (its dependency
  list is empty), and passes \<^verbatim>\<open>onSnapshot\<close> one callback, for snapshots. No error callback
  is passed, so when the feed fails no code of the component runs. What the feed delivers
  and what the component asks of the subscription service:
\<close>

datatype feed_event = Snapshot "(string \<times> doc_data) list" | SubscriptionError

datatype subscription_request = Subscribe | Unsubscribe

definition mount :: "users_state \<times> subscription_request list" where
  "mount = (initial_users_state, [Subscribe])"

definition unmount :: "users_state \<Rightarrow> subscription_request list" where
  "unmount s = [Unsubscribe]"

definition onSnapshot :: "feed_event \<Rightarrow> users_state \<Rightarrow> users_state \<times> subscription_request list" where
  "onSnapshot ev s =
     (case ev of
        Snapshot docs \<Rightarrow> (s\<lparr>users := usersData docs, loading := False\<rparr>, [])
      | SubscriptionError \<Rightarrow> (s, []))"

text \<open>The handlers of the delete dialogue (lines 42 to 63 and 163 to 166).\<close>

definition handleDeleteClick :: "UserData \<Rightarrow> users_state \<Rightarrow> users_state \<times> effect list" where
  "handleDeleteClick user s = (s\<lparr>selectedUser := Some user, showPasswordPrompt := True\<rparr>, [])"

definition onClose :: "users_state \<Rightarrow> users_state \<times> effect list" where
  "onClose s = (s\<lparr>showPasswordPrompt := False, selectedUser := None\<rparr>, [])"

definition handleDelete ::
  "(backend_call \<Rightarrow> outcome) \<Rightarrow> bool \<Rightarrow> users_state \<Rightarrow> users_state \<times> effect list" where
  "handleDelete backend isAuthenticated s =
     (case (isAuthenticated, selectedUser s) of
        (True, Some target) \<Rightarrow>
          (s\<lparr>showPasswordPrompt := False, selectedUser := None\<rparr>,
           BackendCall (DeleteUser (uid target)) #
             (case backend (DeleteUser (uid target)) of
                Fulfilled \<Rightarrow> [ShowSuccessNotification UserDeleted]
              | Rejected \<Rightarrow> [ShowErrorNotification UserDeleteFailed]))
      | _ \<Rightarrow> (s\<lparr>showPasswordPrompt := False, selectedUser := None\<rparr>, []))"

definition onSuccess :: "(backend_call \<Rightarrow> outcome) \<Rightarrow> users_state \<Rightarrow> users_state \<times> effect list" where
  "onSuccess backend s = handleDelete backend True s"

text \<open>Two handlers one after the other: the second runs on the state the first left.\<close>

definition and_then ::
  "('s \<Rightarrow> 's \<times> effect list) \<Rightarrow> ('s \<Rightarrow> 's \<times> effect list) \<Rightarrow> 's \<Rightarrow> 's \<times> effect list" where
  "and_then h1 h2 s =
     (case h1 s of (s1, effs1) \<Rightarrow> (case h2 s1 of (s2, effs2) \<Rightarrow> (s2, effs1 @ effs2)))"

text \<open>
  The states of the delete dialogue, read off the component state: nothing is pending in
  \<open>idle\<close>; in \<open>awaitingConfirmation\<close> the prompt is open on a selected user.
\<close>

definition idle :: "users_state \<Rightarrow> bool" where
  "idle s = (\<not> showPasswordPrompt s \<and> selectedUser s = None)"

definition awaitingConfirmation :: "users_state \<Rightarrow> bool" where
  "awaitingConfirmation s = (showPasswordPrompt s \<and> selectedUser s \<noteq> None)"

text \<open>
  What the component renders (lines 99 to 169): the spinner while loading, a notice when
  the filtered list is empty (worded by whether a search term is set), otherwise the
  filtered list; and the password prompt when it is open. The filtered list is computed
  at every render, before any of this.
\<close>

datatype roster_view = Spinner | NothingFound | RosterEmpty | Roster "UserData list"

record view =
  body :: roster_view
  prompt_open :: bool

definition render :: "(string \<Rightarrow> string) \<Rightarrow> users_state \<Rightarrow> error + view" where
  "render lc s =
     bind (filteredUsers lc (users s) (searchQuery s)) (\<lambda>shown.
       Inr \<lparr>body =
              (if loading s then Spinner
               else if length shown = 0 then
                 (if truthy (Str (searchQuery s)) then NothingFound else RosterEmpty)
               else Roster shown),
            prompt_open = showPasswordPrompt s\<rparr>)"

subsection \<open>The profile screen: component \<^verbatim>\<open>Profile\<close>\<close>

record profile_state =
  profile_displayName :: string
  currentPassword :: string
  newPassword :: string
  confirmPassword :: string
  profile_loading :: bool

definition handleUpdateProfile ::
  "(backend_call \<Rightarrow> outcome) \<Rightarrow> profile_state \<Rightarrow> profile_state \<times> effect list" where
  "handleUpdateProfile backend s =
     (let s1 = s\<lparr>profile_loading := True\<rparr>;
          call = UpdateUserProfile (profile_displayName s)
      in (s1\<lparr>profile_loading := False\<rparr>,
          BackendCall call #
            (case backend call of
               Fulfilled \<Rightarrow> [ShowSuccessNotification ProfileUpdated]
             | Rejected \<Rightarrow> [ShowErrorNotification ProfileUpdateFailed])))"

definition handleUpdatePassword ::
  "(backend_call \<Rightarrow> outcome) \<Rightarrow> profile_state \<Rightarrow> profile_state \<times> effect list" where
  "handleUpdatePassword backend s =
     (if newPassword s \<noteq> confirmPassword s then (s, [ShowErrorNotification PasswordsDiffer])
      else
        let s1 = s\<lparr>profile_loading := True\<rparr>;
            call = UpdateUserPassword (currentPassword s) (newPassword s)
        in (case backend call of
              Fulfilled \<Rightarrow>
                (s1\<lparr>currentPassword := [], newPassword := [], confirmPassword := [],
                    profile_loading := False\<rparr>,
                 [BackendCall call, ShowSuccessNotification PasswordChanged])
            | Rejected \<Rightarrow>
                (s1\<lparr>profile_loading := False\<rparr>,
                 [BackendCall call, ShowErrorNotification PasswordChangeFailed])))"

text \<open>The profile screen is committing exactly while \<^verbatim>\<open>loading\<close> is set.\<close>

definition profile_idle :: "profile_state \<Rightarrow> bool" where
  "profile_idle s = (\<not> profile_loading s)"

subsection \<open>Case-insensitive containment, and inputs to run the definitions on\<close>

text \<open>
  The roster view is described as the records whose \<^verbatim>\<open>email\<close> or \<^verbatim>\<open>displayName\<close>
  case-insensitively contains the search term. Written out on its own, independently of
  the filter expression: the field is present, and the lowercased term occurs in the
  lowercased field as a contiguous run.
\<close>

definition contains_ignoring_case :: "(string \<Rightarrow> string) \<Rightarrow> string option \<Rightarrow> string \<Rightarrow> bool" where
  "contains_ignoring_case lc f t = (case f of None \<Rightarrow> False | Some s \<Rightarrow> sublist (lc t) (lc s))"

text \<open>
  Three roster entries: one with an email only, one with a display name only, one with
  neither; an account service that answers every call alike; and states of both screens.
\<close>

definition alice :: UserData where
  "alice = \<lparr>uid = ''u1'', email = Some ''Alice@Example.org'', displayName = None,
            emailVerified = True, createdAt = 3\<rparr>"

definition bob :: UserData where
  "bob = \<lparr>uid = ''u2'', email = None, displayName = Some ''Bob'',
          emailVerified = False, createdAt = 2\<rparr>"

definition ghost :: UserData where
  "ghost = \<lparr>uid = ''u3'', email = None, displayName = None,
            emailVerified = False, createdAt = 1\<rparr>"

definition always :: "outcome \<Rightarrow> backend_call \<Rightarrow> outcome" where
  "always r c = r"

definition roster_shown :: users_state where
  "roster_shown =
     \<lparr>users = [alice, bob], loading = False, showPasswordPrompt = False,
      selectedUser = None, searchQuery = []\<rparr>"

definition awaiting_alice :: users_state where
  "awaiting_alice =
     \<lparr>users = [alice, bob], loading = False, showPasswordPrompt = True,
      selectedUser = Some alice, searchQuery = []\<rparr>"

definition mismatched_form :: profile_state where
  "mismatched_form =
     \<lparr>profile_displayName = ''Ann'', currentPassword = ''old'', newPassword = ''new1'',
      confirmPassword = ''new2'', profile_loading = False\<rparr>"

definition matching_form :: profile_state where
  "matching_form =
     \<lparr>profile_displayName = ''Ann'', currentPassword = ''old'', newPassword = ''new1'',
      confirmPassword = ''new1'', profile_loading = False\<rparr>"

section \<open>Properties of the roster filter\<close>

subsection \<open>What the filter expression evaluates to\<close>

text \<open>The left-to-right search of \<open>str_includes\<close> finds exactly the contiguous runs.\<close>

lemma str_includes_sublist: "str_includes s t \<longleftrightarrow> sublist t s"
  by (induction s) (auto simp: sublist_Cons_right)

text \<open>
  Without the optional chain the call on a missing field raises; with it, each disjunct
  of the callback has a value, \<^verbatim>\<open>undefined\<close> for a missing field.
\<close>

lemma unguarded_call_raises: "call_toLowerCase lc (read_field None) = Inl TypeError"
  by simp

lemma field_matches_value:
  "field_matches lc f q =
     Inr (case f of None \<Rightarrow> Undefined | Some s \<Rightarrow> Boolean (sublist (lc q) (lc s)))"
  by (cases f) (simp_all add: field_matches_def str_includes_sublist)

lemma field_matches_truthy:
  "\<exists>v. field_matches lc f q = Inr v \<and> (truthy v \<longleftrightarrow> contains_ignoring_case lc f q)"
  by (cases f) (simp_all add: field_matches_value contains_ignoring_case_def)

lemma user_matches_value:
  "\<exists>v. user_matches lc q u = Inr v \<and>
     (truthy v \<longleftrightarrow>
        contains_ignoring_case lc (email u) q \<or> contains_ignoring_case lc (displayName u) q)"
proof -
  obtain a where a: "field_matches lc (email u) q = Inr a"
      "truthy a \<longleftrightarrow> contains_ignoring_case lc (email u) q"
    using field_matches_truthy by blast
  obtain b where b: "field_matches lc (displayName u) q = Inr b"
      "truthy b \<longleftrightarrow> contains_ignoring_case lc (displayName u) q"
    using field_matches_truthy by blast
  show ?thesis
  proof (cases "truthy a")
    case True
    with a show ?thesis by (simp add: user_matches_def)
  next
    case False
    with a b show ?thesis by (simp add: user_matches_def)
  qed
qed

text \<open>A callback that never raises makes \<open>array_filter\<close> the list filter of its truth value.\<close>

lemma array_filter_total:
  assumes "\<And>x. x \<in> set xs \<Longrightarrow> \<exists>v. cb x = Inr v \<and> (truthy v \<longleftrightarrow> P x)"
  shows "array_filter cb xs = Inr (filter P xs)"
  using assms
proof (induction xs)
  case Nil
  show ?case by simp
next
  case (Cons x xs)
  from Cons.prems obtain v where v: "cb x = Inr v" "truthy v \<longleftrightarrow> P x" by auto
  have "array_filter cb xs = Inr (filter P xs)" using Cons by simp
  with v show ?case by simp
qed

lemma filteredUsers_value:
  "filteredUsers lc us q =
     Inr (filter (\<lambda>u. contains_ignoring_case lc (email u) q \<or>
                       contains_ignoring_case lc (displayName u) q) us)"
  unfolding filteredUsers_def by (rule array_filter_total) (rule user_matches_value)

lemma contains_empty_term:
  "lc [] = [] \<Longrightarrow> contains_ignoring_case lc f [] \<longleftrightarrow> f \<noteq> None"
  by (cases f) (simp_all add: contains_ignoring_case_def)

lemma ascii_toLowerCase_empty: "ascii_toLowerCase [] = []"
  by (simp add: ascii_toLowerCase_def)

subsection \<open>Claims about the filter\<close>

text \<open>
  C3 fails as stated on a roster entry with neither \<^verbatim>\<open>email\<close> nor \<^verbatim>\<open>displayName\<close>: both
  optional chains are \<^verbatim>\<open>undefined\<close>, so the entry is dropped even for the empty search
  term, and the filter does not return the full backing set.
\<close>

theorem filter_empty_term_counterexample:
  "filteredUsers ascii_toLowerCase [ghost] [] = Inr [] \<and>
   filteredUsers ascii_toLowerCase [ghost] [] \<noteq> Inr [ghost]"
  by code_simp

text \<open>
  C3, amended: for every backing list and every search term \<open>t\<close> the filter returns only
  records of the backing list whose \<^verbatim>\<open>email\<close> or \<^verbatim>\<open>displayName\<close> case-insensitively
  contains \<open>t\<close>; and for the empty term (which lowercases to itself) it returns exactly
  the records that have an \<^verbatim>\<open>email\<close> or a \<^verbatim>\<open>displayName\<close>, in order, so the full
  backing list when every record has one of the two.
\<close>

theorem filteredUsers_only_matching:
  "(\<exists>shown. filteredUsers lc us t = Inr shown \<and>
      (\<forall>u \<in> set shown. u \<in> set us \<and>
         (contains_ignoring_case lc (email u) t \<or> contains_ignoring_case lc (displayName u) t))) \<and>
   (lc [] = [] \<longrightarrow>
      filteredUsers lc us [] = Inr (filter (\<lambda>u. email u \<noteq> None \<or> displayName u \<noteq> None) us) \<and>
      ((\<forall>u \<in> set us. email u \<noteq> None \<or> displayName u \<noteq> None) \<longrightarrow>
         filteredUsers lc us [] = Inr us))"
  by (simp add: filteredUsers_value contains_empty_term)

theorem filteredUsers_only_matching_witness:
  "ascii_toLowerCase [] = [] \<and>
   filteredUsers ascii_toLowerCase [alice, ghost, bob] [] = Inr [alice, bob] \<and>
   (\<exists>shown. filteredUsers ascii_toLowerCase [alice, ghost, bob] ''ALI'' = Inr shown \<and>
      (\<forall>u \<in> set shown. contains_ignoring_case ascii_toLowerCase (email u) ''ALI'' \<or>
         contains_ignoring_case ascii_toLowerCase (displayName u) ''ALI''))"
proof -
  have present:
    "filter (\<lambda>u. email u \<noteq> None \<or> displayName u \<noteq> None) [alice, ghost, bob] = [alice, bob]"
    by (simp add: alice_def ghost_def bob_def)
  from filteredUsers_only_matching [of ascii_toLowerCase "[alice, ghost, bob]" "''ALI''"]
    ascii_toLowerCase_empty present
  show ?thesis by auto
qed

text \<open>
  C8: the filter is a function of the backing list and the search term alone. It returns
  a new list and has no other output, so the backing list it was given is as before; the
  result is a subsequence of the backing list; and filtering the result again by the same
  term returns the result itself.
\<close>

theorem filteredUsers_idempotent:
  "\<exists>shown. filteredUsers lc us t = Inr shown \<and> subseq shown us \<and>
      filteredUsers lc shown t = Inr shown"
  by (simp add: filteredUsers_value)

theorem filteredUsers_idempotent_witness:
  "filteredUsers ascii_toLowerCase [alice, ghost, bob] ''bo'' = Inr [bob] \<and>
   filteredUsers ascii_toLowerCase [bob] ''bo'' = Inr [bob]"
proof -
  have first: "filteredUsers ascii_toLowerCase [alice, ghost, bob] ''bo'' = Inr [bob]"
    by code_simp
  from filteredUsers_idempotent [of ascii_toLowerCase "[alice, ghost, bob]" "''bo''"] first
  show ?thesis by auto
qed

text \<open>
  C10: the filter never raises, whatever fields the records lack; a record without
  \<^verbatim>\<open>displayName\<close> whose \<^verbatim>\<open>email\<close> matches is in the result; and a record with neither
  field is in no result, for any search term, the empty one included.
\<close>

theorem filteredUsers_missing_fields:
  "\<exists>shown. filteredUsers lc us t = Inr shown \<and>
     (\<forall>u \<in> set us. displayName u = None \<longrightarrow>
        (\<exists>e. email u = Some e \<and> sublist (lc t) (lc e)) \<longrightarrow> u \<in> set shown) \<and>
     (\<forall>u \<in> set us. email u = None \<and> displayName u = None \<longrightarrow> u \<notin> set shown)"
  by (auto simp: filteredUsers_value contains_ignoring_case_def)

theorem filteredUsers_missing_fields_witness:
  "displayName alice = None \<and>
   email alice = Some ''Alice@Example.org'' \<and>
   sublist (ascii_toLowerCase ''EXAMPLE'') (ascii_toLowerCase ''Alice@Example.org'') \<and>
   email ghost = None \<and> displayName ghost = None \<and>
   (\<exists>shown. filteredUsers ascii_toLowerCase [ghost, alice] ''EXAMPLE'' = Inr shown \<and>
      alice \<in> set shown \<and> ghost \<notin> set shown)"
proof -
  have a: "displayName alice = None" "email alice = Some ''Alice@Example.org''"
    by (simp_all add: alice_def)
  have g: "email ghost = None" "displayName ghost = None"
    by (simp_all add: ghost_def)
  have m: "sublist (ascii_toLowerCase ''EXAMPLE'') (ascii_toLowerCase ''Alice@Example.org'')"
    by code_simp
  from filteredUsers_missing_fields [of ascii_toLowerCase "[ghost, alice]" "''EXAMPLE''"] a g m
  show ?thesis by auto
qed

section \<open>Properties of the live subscription\<close>

text \<open>
  C4 fails as stated: the component registers no error callback, so a failure of the
  feed changes nothing. Right after mounting the screen keeps showing the spinner, not an
  empty or error view; after a snapshot it keeps showing that snapshot's roster.
\<close>

theorem subscription_error_counterexample:
  "render ascii_toLowerCase (fst (onSnapshot SubscriptionError (fst mount))) =
     Inr \<lparr>body = Spinner, prompt_open = False\<rparr> \<and>
   render ascii_toLowerCase (fst (onSnapshot SubscriptionError (fst mount))) \<noteq>
     Inr \<lparr>body = RosterEmpty, prompt_open = False\<rparr> \<and>
   render ascii_toLowerCase (fst (onSnapshot SubscriptionError roster_shown)) =
     Inr \<lparr>body = Roster [alice, bob], prompt_open = False\<rparr>"
  by (simp add: onSnapshot_def mount_def initial_users_state_def render_def filteredUsers_value
      roster_shown_def alice_def bob_def contains_ignoring_case_def ascii_toLowerCase_def)

text \<open>
  C4, amended: if the subscription errors, the component state stays as it was, so the
  screen shows what it showed before (the spinner when no snapshot has arrived, else the
  roster of the last snapshot); rendering does not raise; and the component asks for no new
  subscription.
\<close>

theorem subscription_error_ignored:
  "fst (onSnapshot SubscriptionError s) = s \<and>
   snd (onSnapshot SubscriptionError s) = [] \<and>
   render lc (fst (onSnapshot SubscriptionError s)) = render lc s \<and>
   (\<exists>v. render lc (fst (onSnapshot SubscriptionError s)) = Inr v) \<and>
   (loading s \<longrightarrow>
      render lc (fst (onSnapshot SubscriptionError s)) =
        Inr \<lparr>body = Spinner, prompt_open = showPasswordPrompt s\<rparr>)"
  by (simp add: onSnapshot_def render_def filteredUsers_value)

theorem subscription_error_ignored_witness:
  "loading initial_users_state \<and>
   snd (onSnapshot SubscriptionError initial_users_state) = [] \<and>
   render ascii_toLowerCase (fst (onSnapshot SubscriptionError initial_users_state)) =
     Inr \<lparr>body = Spinner, prompt_open = False\<rparr>"
proof -
  have l: "loading initial_users_state" "\<not> showPasswordPrompt initial_users_state"
    by (simp_all add: initial_users_state_def)
  from subscription_error_ignored [of initial_users_state ascii_toLowerCase] l
  show ?thesis
    by (simp add: onSnapshot_def render_def filteredUsers_value initial_users_state_def)
qed

section \<open>Properties of the guarded handlers\<close>

text \<open>
  C1: whatever user is pending, \<^verbatim>\<open>handleDelete(false)\<close> makes no call to the account
  service (none to \<^verbatim>\<open>deleteUser\<close> in particular), clears the selected user, closes the
  prompt, and so leaves the dialogue idle.
\<close>

theorem handleDelete_unauthenticated:
  "handleDelete backend False s =
     (s\<lparr>showPasswordPrompt := False, selectedUser := None\<rparr>, []) \<and>
   backend_calls (snd (handleDelete backend False s)) = [] \<and>
   selectedUser (fst (handleDelete backend False s)) = None \<and>
   idle (fst (handleDelete backend False s))"
  by (simp add: handleDelete_def backend_calls_def idle_def split: option.split)

theorem handleDelete_unauthenticated_witness:
  "awaitingConfirmation awaiting_alice \<and>
   selectedUser awaiting_alice = Some alice \<and>
   backend_calls (snd (handleDelete (always Fulfilled) False awaiting_alice)) = [] \<and>
   idle (fst (handleDelete (always Fulfilled) False awaiting_alice))"
proof -
  have pending: "awaitingConfirmation awaiting_alice" "selectedUser awaiting_alice = Some alice"
    by (simp_all add: awaitingConfirmation_def awaiting_alice_def)
  from handleDelete_unauthenticated [of "always Fulfilled" awaiting_alice] pending
  show ?thesis by blast
qed

text \<open>
  C2: when the new password and its confirmation differ, \<^verbatim>\<open>handleUpdatePassword\<close> leaves
  the form as it is, calls no backend operation, and emits exactly one notification, a
  failure; the result does not depend on the account service.
\<close>

theorem handleUpdatePassword_mismatch:
  assumes "newPassword s \<noteq> confirmPassword s"
  shows "handleUpdatePassword backend s = (s, [ShowErrorNotification PasswordsDiffer]) \<and>
         backend_calls (snd (handleUpdatePassword backend s)) = [] \<and>
         length (failure_notifications (snd (handleUpdatePassword backend s))) = 1 \<and>
         success_notifications (snd (handleUpdatePassword backend s)) = []"
  using assms
  by (simp add: handleUpdatePassword_def backend_calls_def failure_notifications_def
      success_notifications_def)

theorem handleUpdatePassword_mismatch_witness:
  "newPassword mismatched_form \<noteq> confirmPassword mismatched_form \<and>
   handleUpdatePassword (always Fulfilled) mismatched_form =
     (mismatched_form, [ShowErrorNotification PasswordsDiffer])"
proof -
  have differ: "newPassword mismatched_form \<noteq> confirmPassword mismatched_form"
    by (simp add: mismatched_form_def)
  from differ handleUpdatePassword_mismatch [OF differ, of "always Fulfilled"]
  show ?thesis by simp
qed

text \<open>
  C5: whatever the account service answers, \<^verbatim>\<open>handleDelete\<close> ends with the prompt closed
  and no selected user, \<^verbatim>\<open>handleUpdateProfile\<close> ends with \<^verbatim>\<open>loading\<close> cleared, and
  \<^verbatim>\<open>handleUpdatePassword\<close> ends with \<^verbatim>\<open>loading\<close> cleared whenever it calls the backend
  (the passwords agree); when it rejects the form locally it leaves \<^verbatim>\<open>loading\<close> as it
  found it, so an idle screen stays idle. Every handler is a total function of the
  service's answer: none stops in between.
\<close>

theorem handlers_return_to_idle:
  "idle (fst (handleDelete backend isAuthenticated s)) \<and>
   selectedUser (fst (handleDelete backend isAuthenticated s)) = None \<and>
   profile_idle (fst (handleUpdateProfile backend p)) \<and>
   (newPassword p = confirmPassword p \<longrightarrow> profile_idle (fst (handleUpdatePassword backend p))) \<and>
   (profile_idle p \<longrightarrow> profile_idle (fst (handleUpdatePassword backend p)))"
  by (simp add: handleDelete_def idle_def profile_idle_def handleUpdateProfile_def
      handleUpdatePassword_def Let_def split: option.split outcome.split bool.split)

theorem handlers_return_to_idle_witness:
  "newPassword matching_form = confirmPassword matching_form \<and>
   profile_idle matching_form \<and>
   awaitingConfirmation awaiting_alice \<and>
   idle (fst (handleDelete (always Rejected) True awaiting_alice)) \<and>
   profile_idle (fst (handleUpdateProfile (always Rejected) matching_form)) \<and>
   profile_idle (fst (handleUpdatePassword (always Rejected) matching_form))"
proof -
  have form: "newPassword matching_form = confirmPassword matching_form"
      "profile_idle matching_form"
    by (simp_all add: matching_form_def profile_idle_def)
  have pending: "awaitingConfirmation awaiting_alice"
    by (simp add: awaitingConfirmation_def awaiting_alice_def)
  from handlers_return_to_idle [of "always Rejected" True awaiting_alice matching_form]
    form pending
  show ?thesis by blast
qed

text \<open>
  C6: an authenticated \<^verbatim>\<open>handleDelete\<close> with a selected user calls \<^verbatim>\<open>deleteUser\<close> once
  and then emits exactly one notification: a success notification and no failure
  notification when the call fulfils, a failure notification and no success notification
  when it rejects. Closing the prompt and a failed re-authentication emit nothing.
\<close>

theorem handleDelete_notifies_once:
  assumes "selectedUser s = Some target"
  shows "snd (handleDelete backend True s) =
           [BackendCall (DeleteUser (uid target)),
            (if backend (DeleteUser (uid target)) = Fulfilled
             then ShowSuccessNotification UserDeleted
             else ShowErrorNotification UserDeleteFailed)] \<and>
         length (success_notifications (snd (handleDelete backend True s))) +
           length (failure_notifications (snd (handleDelete backend True s))) = 1 \<and>
         (backend (DeleteUser (uid target)) = Fulfilled \<longrightarrow>
            length (success_notifications (snd (handleDelete backend True s))) = 1 \<and>
            failure_notifications (snd (handleDelete backend True s)) = []) \<and>
         (backend (DeleteUser (uid target)) = Rejected \<longrightarrow>
            length (failure_notifications (snd (handleDelete backend True s))) = 1 \<and>
            success_notifications (snd (handleDelete backend True s)) = []) \<and>
         snd (onClose s) = [] \<and>
         snd (handleDelete backend False s) = []"
  using assms
  by (simp add: handleDelete_def onClose_def success_notifications_def
      failure_notifications_def split: outcome.split)

theorem handleDelete_notifies_once_witness:
  "selectedUser awaiting_alice = Some alice \<and>
   always Fulfilled (DeleteUser (uid alice)) = Fulfilled \<and>
   snd (handleDelete (always Fulfilled) True awaiting_alice) =
     [BackendCall (DeleteUser ''u1''), ShowSuccessNotification UserDeleted] \<and>
   failure_notifications (snd (handleDelete (always Fulfilled) True awaiting_alice)) = []"
proof -
  have pending: "selectedUser awaiting_alice = Some alice"
    by (simp add: awaiting_alice_def)
  have answer: "always Fulfilled (DeleteUser (uid alice)) = Fulfilled"
    by (simp add: always_def)
  have id: "uid alice = ''u1''"
    by (simp add: alice_def)
  from handleDelete_notifies_once [OF pending, of "always Fulfilled"] pending answer id
  show ?thesis by (simp add: failure_notifications_def)
qed

text \<open>
  C7: for every user record \<open>U\<close> and every state, \<^verbatim>\<open>handleDeleteClick(U)\<close> opens the
  prompt on \<open>U\<close>, and closing the prompt after it makes no backend call and leaves the
  dialogue idle with no selected user.
\<close>

theorem requestDelete_then_cancel:
  "awaitingConfirmation (fst (handleDeleteClick U s)) \<and>
   snd (and_then (handleDeleteClick U) onClose s) = [] \<and>
   backend_calls (snd (and_then (handleDeleteClick U) onClose s)) = [] \<and>
   idle (fst (and_then (handleDeleteClick U) onClose s)) \<and>
   selectedUser (fst (and_then (handleDeleteClick U) onClose s)) = None"
  by (simp add: and_then_def handleDeleteClick_def onClose_def awaitingConfirmation_def
      backend_calls_def idle_def)

theorem requestDelete_then_cancel_witness:
  "idle roster_shown \<and>
   selectedUser (fst (handleDeleteClick alice roster_shown)) = Some alice \<and>
   awaitingConfirmation (fst (handleDeleteClick alice roster_shown)) \<and>
   and_then (handleDeleteClick alice) onClose roster_shown = (roster_shown, [])"
proof -
  have start: "idle roster_shown"
    by (simp add: idle_def roster_shown_def)
  have picked: "selectedUser (fst (handleDeleteClick alice roster_shown)) = Some alice"
    by (simp add: handleDeleteClick_def)
  have restored: "and_then (handleDeleteClick alice) onClose roster_shown = (roster_shown, [])"
    by (simp add: and_then_def handleDeleteClick_def onClose_def roster_shown_def)
  from requestDelete_then_cancel [of alice roster_shown] start picked restored
  show ?thesis by blast
qed

text \<open>
  C9: for every user record \<open>U\<close>, \<^verbatim>\<open>handleDeleteClick(U)\<close> followed by the prompt's
  \<^verbatim>\<open>onSuccess\<close> with the backend rejecting the delete calls \<^verbatim>\<open>deleteUser\<close> for \<open>U\<close>, emits
  exactly one notification, a failure, leaves the dialogue idle, and leaves the
  \<^verbatim>\<open>users\<close> list as it was: \<open>U\<close> is still on the roster if it was.
\<close>

theorem failed_delete_keeps_roster:
  assumes "backend (DeleteUser (uid U)) = Rejected"
  shows "snd (and_then (handleDeleteClick U) (onSuccess backend) s) =
           [BackendCall (DeleteUser (uid U)), ShowErrorNotification UserDeleteFailed] \<and>
         length (failure_notifications
           (snd (and_then (handleDeleteClick U) (onSuccess backend) s))) = 1 \<and>
         success_notifications
           (snd (and_then (handleDeleteClick U) (onSuccess backend) s)) = [] \<and>
         idle (fst (and_then (handleDeleteClick U) (onSuccess backend) s)) \<and>
         users (fst (and_then (handleDeleteClick U) (onSuccess backend) s)) = users s \<and>
         (U \<in> set (users s) \<longrightarrow>
            U \<in> set (users (fst (and_then (handleDeleteClick U) (onSuccess backend) s))))"
  using assms
  by (simp add: and_then_def handleDeleteClick_def onSuccess_def handleDelete_def idle_def
      failure_notifications_def success_notifications_def)

theorem failed_delete_keeps_roster_witness:
  "always Rejected (DeleteUser (uid alice)) = Rejected \<and>
   alice \<in> set (users roster_shown) \<and>
   alice \<in> set (users (fst (and_then (handleDeleteClick alice) (onSuccess (always Rejected))
                               roster_shown))) \<and>
   snd (and_then (handleDeleteClick alice) (onSuccess (always Rejected)) roster_shown) =
     [BackendCall (DeleteUser ''u1''), ShowErrorNotification UserDeleteFailed]"
proof -
  have answer: "always Rejected (DeleteUser (uid alice)) = Rejected"
    by (simp add: always_def)
  have listed: "alice \<in> set (users roster_shown)"
    by (simp add: roster_shown_def)
  have id: "uid alice = ''u1''"
    by (simp add: alice_def)
  from failed_delete_keeps_roster [of "always Rejected" alice roster_shown] answer listed id
  show ?thesis by simp
qed

end
